theory Spec2Isabelle
  imports Main "HOL-Library.Sublist" "HOL-Library.AList"
begin

section \<open>Values exchanged with the hub\<close>

text \<open>
  A shallow embedding of \<^verbatim>\<open>PolarisHubClient\<close> (\<^verbatim>\<open>src/polaris/hub/client.py\<close>).
  Parsed JSON is a tree; a Python dict is an association list with distinct keys.
\<close>

datatype json =
    JNull
  | JBool bool
  | JInt int
  | JStr string
  | JArr "json list"
  | JObj "(string \<times> json) list"

text \<open>
  The \<^verbatim>\<open>auth\<close> keyword of a request: the \<^verbatim>\<open>httpx.USE_CLIENT_DEFAULT\<close> sentinel (attach the
  session's hub token) or an explicit \<^verbatim>\<open>None\<close> (attach nothing).
\<close>

datatype auth_arg = USE_CLIENT_DEFAULT | AuthNone

type_synonym timeout = "nat \<times> nat"

record request_args =
  http_method :: string
  url :: string
  withhold_token :: bool
  auth :: auth_arg
  headers :: "(string \<times> string) list"
  content :: "string option"
  json_body :: "json option"
  timeout :: "timeout option"

text \<open>
  A response as the client observes it: \<^verbatim>\<open>status_code\<close>, \<^verbatim>\<open>content\<close>, and what
  \<^verbatim>\<open>response.json()\<close> gives (\<open>None\<close> when it raises \<^verbatim>\<open>JSONDecodeError\<close>).
\<close>

record response =
  status_code :: nat
  resp_content :: string
  resp_json :: "json option"

datatype error =
    SSLCertVerificationError
  | ConnectError string
  | MissingTokenError
  | InvalidTokenError
  | OAuthError
  | HTTPStatusError response
  | PolarisUnauthorizedError
  | PolarisHubError string
  | InvalidDatasetError
  | ValueError string
  | JSONDecodeError
  | KeyError string
  | TypeError
  | OtherError string

text \<open>What \<^verbatim>\<open>_base_request_to_hub\<close> returns: the parsed body, or the response itself when
  the body is not JSON.\<close>

datatype hub_result = Json json | Raw response

section \<open>The client's state and its collaborators\<close>

datatype io_mode = ModeR | ModeRPlus | ModeA | ModeW | ModeWMinus

datatype conflict_resolution = IfExistsRaise | IfExistsReplace | IfExistsSkip

text \<open>
  What the client does is recorded, in order, in its trace: every call that leaves the client,
  and the computations an upload makes on the serialised table and on the checksum manifest
  (its length, its digest, the dump of the manifest).
\<close>

datatype event =
    SuperRequest request_args
  | SuperEnsureActiveToken string
  | ExternalEnsureActiveToken
  | FetchToken
  | TableToParquet
  | BufferSize nat
  | Md5Digest string
  | ZarrManifestDump "json list"
  | NewPolarisFileSystem string "string option"
  | ZarrOpen string io_mode bool
  | ConsolidateMetadata
  | ReadSourceKey string
  | WriteDestKey string string
  | CopyStore conflict_resolution
  | ReadParquet string
  | MakeDataset
  | VerifyChecksum

text \<open>
  The fields of a \<^verbatim>\<open>Dataset\<close> that the client reads or writes. The owner is held by its
  slug (what \<^verbatim>\<open>str(owner)\<close> gives); the table is opaque.
\<close>

record dataset =
  ds_license :: "string option"
  ds_owner :: "string option"
  ds_name :: "string option"
  ds_table :: string
  ds_uses_zarr :: bool
  ds_zarr_md5sum_manifest :: "json list"
  ds_md5sum :: "json option"

datatype checksum_strategy = Verify | VerifyUnlessZarr | Ignore

record client =
  default_timeout :: timeout
  token :: "string option"
  trace :: "event list"

text \<open>
  The libraries the client is built on (authlib, httpx, zarr, pandas, hashlib, json) and
  the repository's own modules outside \<^verbatim>\<open>client.py\<close> are parameters: each gives the outcome of
  a call from the events so far and the call's arguments.
\<close>

record env =
  super_request :: "event list \<Rightarrow> request_args \<Rightarrow> error + response"
  super_ensure_active_token :: "event list \<Rightarrow> string \<Rightarrow> error + bool"
  external_ensure_active_token :: "event list \<Rightarrow> error + bool"
  fetch_token :: "event list \<Rightarrow> error + string"
  json_dumps :: "json \<Rightarrow> string"
  md5_hexdigest :: "string \<Rightarrow> string"
  new_filesystem :: "event list \<Rightarrow> string \<Rightarrow> string option \<Rightarrow> error + unit"
  zarr_open :: "event list \<Rightarrow> string \<Rightarrow> io_mode \<Rightarrow> bool \<Rightarrow> error + unit"
  consolidate_metadata :: "event list \<Rightarrow> error + unit"
  read_source_key :: "event list \<Rightarrow> string \<Rightarrow> error + string"
  write_dest_key :: "event list \<Rightarrow> string \<Rightarrow> string \<Rightarrow> error + unit"
  copy_store :: "event list \<Rightarrow> conflict_resolution \<Rightarrow> error + unit"
  fs_protocol :: string
  normalize_owner :: "string option \<Rightarrow> error + string"
  model_dump :: "dataset \<Rightarrow> (string \<times> json) list"
  sluggify :: "string \<Rightarrow> string"
  to_parquet :: "string \<Rightarrow> error + string"
  read_parquet :: "string \<Rightarrow> error + string"
  make_dataset :: "event list \<Rightarrow> (string \<times> json) list \<Rightarrow> string \<Rightarrow> error + dataset"
  should_verify_checksum :: "checksum_strategy \<Rightarrow> dataset \<Rightarrow> bool"
  verify_checksum :: "event list \<Rightarrow> dataset \<Rightarrow> error + unit"

definition log_event :: "event \<Rightarrow> client \<Rightarrow> client" where
  "log_event e c = c\<lparr>trace := trace c @ [e]\<rparr>"

text \<open>
  Statements run in sequence; an exception ends the sequence and keeps the state reached.
  \<open>lift\<close> is a computation inside the client, \<open>call\<close> one that leaves it.
\<close>

definition bind ::
    "(client \<Rightarrow> (error + 'a) \<times> client) \<Rightarrow> ('a \<Rightarrow> client \<Rightarrow> (error + 'b) \<times> client)
       \<Rightarrow> client \<Rightarrow> (error + 'b) \<times> client" where
  "bind m f c = (case m c of (Inl e, c') \<Rightarrow> (Inl e, c') | (Inr x, c') \<Rightarrow> f x c')"

definition lift :: "error + 'a \<Rightarrow> client \<Rightarrow> (error + 'a) \<times> client" where
  "lift r c = (r, c)"

definition call :: "event \<Rightarrow> (event list \<Rightarrow> error + 'a) \<Rightarrow> client \<Rightarrow> (error + 'a) \<times> client" where
  "call e f c = (f (trace c), log_event e c)"

section \<open>Error translation: \<^verbatim>\<open>request\<close> and \<^verbatim>\<open>_base_request_to_hub\<close>\<close>

definition HTTPX_SSL_ERROR_CODE :: string where
  "HTTPX_SSL_ERROR_CODE = ''[SSL: CERTIFICATE_VERIFY_FAILED]''"

text \<open>The two \<^verbatim>\<open>except\<close> clauses of \<^verbatim>\<open>request\<close>, in their order; any other exception
  propagates.\<close>

fun translate_error :: "error \<Rightarrow> error" where
  "translate_error (ConnectError msg) =
     (if sublist HTTPX_SSL_ERROR_CODE msg then SSLCertVerificationError else ConnectError msg)"
| "translate_error MissingTokenError = PolarisUnauthorizedError"
| "translate_error InvalidTokenError = PolarisUnauthorizedError"
| "translate_error OAuthError = PolarisUnauthorizedError"
| "translate_error (HTTPStatusError r) =
     (if status_code r \<noteq> 401 then HTTPStatusError r else PolarisUnauthorizedError)"
| "translate_error e = e"

definition request :: "env \<Rightarrow> request_args \<Rightarrow> client \<Rightarrow> (error + response) \<times> client" where
  "request E a c =
     (case super_request E (trace c) a of
        Inr r \<Rightarrow> (Inr r, log_event (SuperRequest a) c)
      | Inl e \<Rightarrow> (Inl (translate_error e), log_event (SuperRequest a) c))"

text \<open>\<^verbatim>\<open>Response.raise_for_status\<close> of httpx: raises unless the status is a success
  (\<open>200\<close> to \<open>299\<close>).\<close>

definition is_success :: "response \<Rightarrow> bool" where
  "is_success r = (200 \<le> status_code r \<and> status_code r \<le> 299)"

definition raise_for_status :: "response \<Rightarrow> error + unit" where
  "raise_for_status r = (if is_success r then Inr () else Inl (HTTPStatusError r))"

definition hub_error_prefix :: string where
  "hub_error_prefix =
     ''The request to the Polaris Hub failed. See the error message below for more details:'' @ [CHR 0x0A]"

text \<open>The keyword arguments a hub request passes on, with \<^verbatim>\<open>withhold_token\<close> and
  \<^verbatim>\<open>auth\<close> left at their defaults.\<close>

definition hub_args :: "string \<Rightarrow> string \<Rightarrow> json option \<Rightarrow> timeout option \<Rightarrow> request_args" where
  "hub_args u m j t =
     \<lparr>http_method = m, url = u, withhold_token = False, auth = USE_CLIENT_DEFAULT,
      headers = [], content = None, json_body = j, timeout = t\<rparr>"

definition base_request_to_hub ::
    "env \<Rightarrow> string \<Rightarrow> string \<Rightarrow> json option \<Rightarrow> timeout option \<Rightarrow> client
       \<Rightarrow> (error + hub_result) \<times> client" where
  "base_request_to_hub E u m j t c =
     (case request E (hub_args u m j t) c of
        (Inl e, c') \<Rightarrow> (Inl e, c')
      | (Inr r, c') \<Rightarrow>
          (case raise_for_status r of
             Inl err \<Rightarrow>
               (if status_code r = 500 then (Inl err, c')
                else (case resp_json r of
                        None \<Rightarrow> (Inl JSONDecodeError, c')
                      | Some body \<Rightarrow>
                          (Inl (PolarisHubError (hub_error_prefix @ json_dumps E body)), c')))
           | Inr _ \<Rightarrow>
               (case resp_json r of
                  Some body \<Rightarrow> (Inr (Json body), c')
                | None \<Rightarrow> (Inr (Raw r), c'))))"

section \<open>Token renewal: \<^verbatim>\<open>ensure_active_token\<close>\<close>

definition ensure_active_token :: "env \<Rightarrow> string \<Rightarrow> client \<Rightarrow> (error + bool) \<times> client" where
  "ensure_active_token E tok c =
     (let c1 = log_event (SuperEnsureActiveToken tok) c in
      case super_ensure_active_token E (trace c) tok of
        Inl e \<Rightarrow> (Inl e, c1)
      | Inr True \<Rightarrow> (Inr True, c1)
      | Inr False \<Rightarrow>
          (let c2 = log_event ExternalEnsureActiveToken c1 in
           case external_ensure_active_token E (trace c1) of
             Inl e \<Rightarrow> (Inl e, c2)
           | Inr False \<Rightarrow> (Inr False, c2)
           | Inr True \<Rightarrow>
               (let c3 = log_event FetchToken c2 in
                case fetch_token E (trace c2) of
                  Inl e \<Rightarrow> (Inl e, c3)
                | Inr fresh \<Rightarrow> (Inr True, c3\<lparr>token := Some fresh\<rparr>))))"

section \<open>Opening the remote array store: \<^verbatim>\<open>open_zarr_file\<close>\<close>

definition consolidated_mode_error :: string where
  "consolidated_mode_error = ''Consolidated archives can only be used with 'r' or 'r+' mode.''"

definition open_zarr_file ::
    "env \<Rightarrow> string \<Rightarrow> string option \<Rightarrow> string \<Rightarrow> io_mode \<Rightarrow> bool \<Rightarrow> client
       \<Rightarrow> (error + unit) \<times> client" where
  "open_zarr_file E owner name path mode as_consolidated c =
     (if as_consolidated \<and> mode \<notin> {ModeR, ModeRPlus} then
        (Inl (ValueError consolidated_mode_error), c)
      else
        (let c1 = log_event (NewPolarisFileSystem owner name) c in
         case new_filesystem E (trace c) owner name of
           Inl e \<Rightarrow> (Inl e, c1)
         | Inr _ \<Rightarrow>
             (let consolidated = (mode \<in> {ModeR, ModeRPlus} \<and> as_consolidated);
                  c2 = log_event (ZarrOpen path mode consolidated) c1
              in case zarr_open E (trace c1) path mode consolidated of
                   Inl e \<Rightarrow> (Inl (PolarisHubError ''Error opening Zarr store''), c2)
                 | Inr h \<Rightarrow> (Inr h, c2))))"

section \<open>Reading parsed JSON the way Python subscripts it\<close>

definition json_getitem :: "json \<Rightarrow> string \<Rightarrow> error + json" where
  "json_getitem j k =
     (case j of
        JObj kvs \<Rightarrow> (case map_of kvs k of Some v \<Rightarrow> Inr v | None \<Rightarrow> Inl (KeyError k))
      | _ \<Rightarrow> Inl TypeError)"

definition result_getitem :: "hub_result \<Rightarrow> string \<Rightarrow> error + json" where
  "result_getitem res k = (case res of Json j \<Rightarrow> json_getitem j k | Raw r \<Rightarrow> Inl TypeError)"

definition json_str :: "json \<Rightarrow> error + string" where
  "json_str j = (case j of JStr s \<Rightarrow> Inr s | _ \<Rightarrow> Inl TypeError)"

fun header_items :: "(string \<times> json) list \<Rightarrow> error + (string \<times> string) list" where
  "header_items [] = Inr []"
| "header_items ((k, JStr v) # kvs) =
     (case header_items kvs of Inl e \<Rightarrow> Inl e | Inr hs \<Rightarrow> Inr ((k, v) # hs))"
| "header_items (_ # kvs) = Inl TypeError"

definition json_headers :: "json \<Rightarrow> error + (string \<times> string) list" where
  "json_headers j = (case j of JObj kvs \<Rightarrow> header_items kvs | _ \<Rightarrow> Inl TypeError)"

definition response_json :: "response \<Rightarrow> error + json" where
  "response_json r = (case resp_json r of None \<Rightarrow> Inl JSONDecodeError | Some j \<Rightarrow> Inr j)"

text \<open>A dict display \<^verbatim>\<open>{..., **extra}\<close>: the entries of \<open>extra\<close> are stored in turn, a
  later key replacing an earlier one.\<close>

definition dict_merge :: "(string \<times> 'v) list \<Rightarrow> (string \<times> 'v) list \<Rightarrow> (string \<times> 'v) list" where
  "dict_merge base extra = fold (\<lambda>(k, v). AList.update k v) extra base"

definition fmt_opt :: "string option \<Rightarrow> string" where
  "fmt_opt s = (case s of None \<Rightarrow> ''None'' | Some v \<Rightarrow> v)"

definition truthy :: "string option \<Rightarrow> bool" where
  "truthy s = (case s of None \<Rightarrow> False | Some v \<Rightarrow> v \<noteq> [])"

text \<open>\<^verbatim>\<open>BaseArtifactModel.artifact_id\<close> (\<^verbatim>\<open>src/polaris/_artifact.py\<close>).\<close>

definition artifact_id :: "env \<Rightarrow> dataset \<Rightarrow> string option" where
  "artifact_id E d =
     (case ds_owner d of
        None \<Rightarrow> None
      | Some ow \<Rightarrow>
          (if truthy (ds_name d) then Some (ow @ ''/'' @ sluggify E (the (ds_name d))) else None))"

section \<open>Download: \<^verbatim>\<open>_load_from_signed_url\<close> and \<^verbatim>\<open>get_dataset\<close>\<close>

text \<open>\<^verbatim>\<open>self.get(url, auth=..., headers=...)\<close> of httpx calls \<^verbatim>\<open>self.request("GET", url, ...)\<close>,
  which is the client's own \<^verbatim>\<open>request\<close>.\<close>

definition get_args :: "string \<Rightarrow> auth_arg \<Rightarrow> (string \<times> string) list \<Rightarrow> request_args" where
  "get_args u a hs =
     \<lparr>http_method = ''GET'', url = u, withhold_token = False, auth = a,
      headers = hs, content = None, json_body = None, timeout = None\<rparr>"

definition load_from_signed_url ::
    "env \<Rightarrow> string \<Rightarrow> (string \<times> string) list \<Rightarrow> client \<Rightarrow> (error + string) \<times> client" where
  "load_from_signed_url E u hs =
     bind (request E (get_args u AuthNone hs)) (\<lambda>response.
     bind (lift (raise_for_status response)) (\<lambda>_.
     call (ReadParquet (resp_content response)) (\<lambda>_. read_parquet E (resp_content response))))"

definition no_signed_url_error :: string where
  "no_signed_url_error = ''Could not get signed URL from Polaris Hub.''"

definition storage_check :: "response \<Rightarrow> error + unit" where
  "storage_check storage_response =
     (if status_code storage_response \<noteq> 307 then
        (case raise_for_status storage_response of
           Inl err \<Rightarrow> Inl (PolarisHubError no_signed_url_error)
         | Inr u \<Rightarrow> Inr u)
      else Inr ())"

definition get_dataset ::
    "env \<Rightarrow> string \<Rightarrow> string \<Rightarrow> checksum_strategy \<Rightarrow> client \<Rightarrow> (error + dataset) \<times> client" where
  "get_dataset E owner name verify =
     bind (base_request_to_hub E (''/dataset/'' @ owner @ ''/'' @ name) ''GET'' None None) (\<lambda>response.
     bind (lift (result_getitem response ''tableContent'')) (\<lambda>table_content.
     bind (lift (json_getitem table_content ''url'')) (\<lambda>table_url_json.
     bind (lift (json_str table_url_json)) (\<lambda>table_url.
     bind (request E (get_args table_url USE_CLIENT_DEFAULT [])) (\<lambda>storage_response.
     bind (lift (storage_check storage_response)) (\<lambda>_.
     bind (lift (response_json storage_response)) (\<lambda>storage_json.
     bind (lift (json_getitem storage_json ''url'')) (\<lambda>url_json.
     bind (lift (json_getitem storage_json ''headers'')) (\<lambda>headers_json.
     bind (lift (json_str url_json)) (\<lambda>signed_url.
     bind (lift (json_headers headers_json)) (\<lambda>signed_headers.
     bind (load_from_signed_url E signed_url signed_headers) (\<lambda>table.
     bind (lift (case response of Json (JObj kvs) \<Rightarrow> Inr kvs | _ \<Rightarrow> Inl TypeError)) (\<lambda>fields.
     bind (call MakeDataset (\<lambda>tr. make_dataset E tr fields table)) (\<lambda>dataset.
       if should_verify_checksum E verify dataset then
         bind (call VerifyChecksum (\<lambda>tr. verify_checksum E tr dataset)) (\<lambda>_. lift (Inr dataset))
       else
         bind (lift (result_getitem response ''md5Sum'')) (\<lambda>md5.
         lift (Inr (dataset\<lparr>ds_md5sum := Some md5\<rparr>)))))))))))))))))"

section \<open>Upload: \<^verbatim>\<open>upload_dataset\<close>\<close>

definition parquet_content_type :: "string \<times> string" where
  "parquet_content_type = (''Content-type'', ''application/vnd.apache.parquet'')"

text \<open>The body of the announce request (step 1), from the size and the digest of the
  serialised table, the dumped manifest, the access level and the dumped dataset.\<close>

definition announce_json ::
    "string \<Rightarrow> nat \<Rightarrow> string \<Rightarrow> json list \<Rightarrow> (string \<times> json) list \<Rightarrow> json" where
  "announce_json access parquet_size parquet_md5 zarr_content dataset_json =
     JObj (dict_merge
       [(''tableContent'',
           JObj [(''size'', JInt (int parquet_size)),
                 (''fileType'', JStr ''parquet''),
                 (''md5Sum'', JStr parquet_md5)]),
        (''zarrContent'', JArr zarr_content),
        (''access'', JStr access)]
       dataset_json)"

text \<open>Step 2: the empty \<^verbatim>\<open>PUT\<close> to the hub and, on a 307, the \<^verbatim>\<open>PUT\<close> of the buffer to the
  location the hub names.\<close>

definition table_put_args :: "string \<Rightarrow> timeout \<Rightarrow> request_args" where
  "table_put_args u t =
     \<lparr>http_method = ''PUT'', url = u, withhold_token = False, auth = USE_CLIENT_DEFAULT,
      headers = [parquet_content_type], content = None, json_body = None, timeout = Some t\<rparr>"

definition bucket_put_args ::
    "string \<Rightarrow> string \<Rightarrow> (string \<times> string) list \<Rightarrow> string \<Rightarrow> timeout \<Rightarrow> request_args" where
  "bucket_put_args u m hs buffer t =
     \<lparr>http_method = m, url = u, withhold_token = False, auth = AuthNone,
      headers = dict_merge [parquet_content_type] hs, content = Some buffer,
      json_body = None, timeout = Some t\<rparr>"

definition upload_parquet ::
    "env \<Rightarrow> hub_result \<Rightarrow> string \<Rightarrow> timeout \<Rightarrow> client \<Rightarrow> (error + unit) \<times> client" where
  "upload_parquet E response buffer t =
     bind (lift (result_getitem response ''tableContent'')) (\<lambda>table_content.
     bind (lift (json_getitem table_content ''url'')) (\<lambda>table_url_json.
     bind (lift (json_str table_url_json)) (\<lambda>table_url.
     bind (request E (table_put_args table_url t)) (\<lambda>hub_response.
       if status_code hub_response = 307 then
         bind (lift (response_json hub_response)) (\<lambda>body.
         bind (lift (json_getitem body ''url'')) (\<lambda>url_json.
         bind (lift (json_getitem body ''method'')) (\<lambda>method_json.
         bind (lift (json_getitem body ''headers'')) (\<lambda>headers_json.
         bind (lift (json_str url_json)) (\<lambda>bucket_url.
         bind (lift (json_str method_json)) (\<lambda>bucket_method.
         bind (lift (json_headers headers_json)) (\<lambda>bucket_headers.
         bind (request E (bucket_put_args bucket_url bucket_method bucket_headers buffer t))
           (\<lambda>bucket_response. lift (raise_for_status bucket_response)))))))))
       else lift (raise_for_status hub_response)))))"

text \<open>Step 3, the body of the \<^verbatim>\<open>with\<close> block: open the destination for writing, consolidate
  the local metadata, write \<^verbatim>\<open>.zmetadata\<close>, copy the store.\<close>

definition upload_zarr ::
    "env \<Rightarrow> dataset \<Rightarrow> string \<Rightarrow> conflict_resolution \<Rightarrow> client \<Rightarrow> (error + unit) \<times> client" where
  "upload_zarr E d zarr_root_path if_exists =
     bind (open_zarr_file E (fmt_opt (ds_owner d)) (ds_name d) zarr_root_path ModeW False) (\<lambda>dest.
     bind (call ConsolidateMetadata (consolidate_metadata E)) (\<lambda>_.
     bind (call (ReadSourceKey ''.zmetadata'') (\<lambda>tr. read_source_key E tr ''.zmetadata''))
       (\<lambda>zmetadata_content.
     bind (call (WriteDestKey ''.zmetadata'' zmetadata_content)
             (\<lambda>tr. write_dest_key E tr ''.zmetadata'' zmetadata_content)) (\<lambda>_.
     call (CopyStore if_exists) (\<lambda>tr. copy_store E tr if_exists)))))"

text \<open>Modelled from the spec: \<^verbatim>\<open>tmp_attribute_change\<close> of \<^verbatim>\<open>polaris.utils.context\<close>, which is not
  among the sources. The spec: ``capture prior value, apply new value, run the operation,
  guarantee restoration on every exit path including error propagation''. The attribute is
  always the session's \<^verbatim>\<open>default_timeout\<close>.
\<close>

definition tmp_attribute_change ::
    "timeout \<Rightarrow> (client \<Rightarrow> (error + 'a) \<times> client) \<Rightarrow> client \<Rightarrow> (error + 'a) \<times> client" where
  "tmp_attribute_change v body c =
     (let original_value = default_timeout c in
      case body (c\<lparr>default_timeout := v\<rparr>) of
        (r, c') \<Rightarrow> (r, c'\<lparr>default_timeout := original_value\<rparr>))"

definition zarr_root_path :: "env \<Rightarrow> string" where
  "zarr_root_path E = fs_protocol E @ ''://data.zarr''"

text \<open>The three steps, once the license is checked and the timeout normalised to \<open>t\<close>.\<close>

definition upload_dataset_steps ::
    "env \<Rightarrow> dataset \<Rightarrow> string \<Rightarrow> timeout \<Rightarrow> string option \<Rightarrow> conflict_resolution
       \<Rightarrow> client \<Rightarrow> (error + hub_result) \<times> client" where
  "upload_dataset_steps E dataset access t owner if_exists =
     bind (lift (normalize_owner E (if truthy owner then owner else ds_owner dataset))) (\<lambda>ow.
       let d = dataset\<lparr>ds_owner := Some ow\<rparr>;
           dataset_json = AList.update ''zarrRootPath'' (JStr (zarr_root_path E)) (model_dump E d)
       in
       bind (call TableToParquet (\<lambda>_. to_parquet E (ds_table d))) (\<lambda>buffer.
       bind (call (BufferSize (length buffer)) (\<lambda>_. Inr (length buffer))) (\<lambda>parquet_size.
       bind (call (Md5Digest buffer) (\<lambda>_. Inr (md5_hexdigest E buffer))) (\<lambda>parquet_md5.
       bind (call (ZarrManifestDump (ds_zarr_md5sum_manifest d))
               (\<lambda>_. Inr (ds_zarr_md5sum_manifest d))) (\<lambda>zarr_content.
       bind (base_request_to_hub E (''/dataset/'' @ fmt_opt (artifact_id E d)) ''PUT''
               (Some (announce_json access parquet_size parquet_md5 zarr_content dataset_json))
               (Some t)) (\<lambda>response.
       bind (upload_parquet E response buffer t) (\<lambda>_.
       bind (if ds_uses_zarr d
             then tmp_attribute_change t (upload_zarr E d (zarr_root_path E) if_exists)
             else lift (Inr ())) (\<lambda>_.
       lift (Inr response)))))))))"

definition upload_dataset ::
    "env \<Rightarrow> dataset \<Rightarrow> string \<Rightarrow> timeout option \<Rightarrow> string option \<Rightarrow> conflict_resolution
       \<Rightarrow> client \<Rightarrow> (error + hub_result) \<times> client" where
  "upload_dataset E dataset access timeout_arg owner if_exists c =
     (if \<not> truthy (ds_license dataset) then (Inl InvalidDatasetError, c)
      else
        (let t = (case timeout_arg of None \<Rightarrow> default_timeout c | Some v \<Rightarrow> v) in
         upload_dataset_steps E dataset access t owner if_exists c))"

section \<open>Reading a run: the events a call adds\<close>

definition new_events :: "client \<Rightarrow> client \<Rightarrow> event list" where
  "new_events c c' = drop (length (trace c)) (trace c')"

fun requests_of :: "event list \<Rightarrow> request_args list" where
  "requests_of [] = []"
| "requests_of (SuperRequest a # es) = a # requests_of es"
| "requests_of (e # es) = requests_of es"

definition is_ok :: "'e + 'a \<Rightarrow> bool" where
  "is_ok r = (case r of Inl e \<Rightarrow> False | Inr x \<Rightarrow> True)"

text \<open>\<open>emits P m\<close>: from any state, \<open>m\<close> only appends events, and \<open>P\<close> holds of its result and
  of the events it appends.\<close>

definition emits ::
    "((error + 'r) \<Rightarrow> event list \<Rightarrow> bool) \<Rightarrow> (client \<Rightarrow> (error + 'r) \<times> client) \<Rightarrow> bool" where
  "emits P m = (\<forall>c. \<exists>es. trace (snd (m c)) = trace c @ es \<and> P (fst (m c)) es)"

definition keeps_timeout :: "(client \<Rightarrow> 'r \<times> client) \<Rightarrow> bool" where
  "keeps_timeout m = (\<forall>c. default_timeout (snd (m c)) = default_timeout c)"

text \<open>The events of a complete array transfer (step 3), \<open>z\<close> being the consolidated
  metadata read from the local store.\<close>

definition array_steps :: "string \<Rightarrow> string option \<Rightarrow> string \<Rightarrow> conflict_resolution \<Rightarrow> string \<Rightarrow> event list" where
  "array_steps ow name p pol z =
     [NewPolarisFileSystem ow name, ZarrOpen p ModeW False, ConsolidateMetadata,
      ReadSourceKey ''.zmetadata'', WriteDestKey ''.zmetadata'' z, CopyStore pol]"

text \<open>What steps 2 and 3 of an upload leave in the trace: the tabular requests \<open>tab\<close>, then the
  array events \<open>arr\<close>.\<close>

definition transfer_shape ::
    "bool \<Rightarrow> string \<Rightarrow> string option \<Rightarrow> string \<Rightarrow> conflict_resolution \<Rightarrow> string \<Rightarrow> timeout
       \<Rightarrow> (error + hub_result) \<Rightarrow> event list \<Rightarrow> event list \<Rightarrow> bool" where
  "transfer_shape uz ow name p pol buf t r tab arr =
     ((tab = [] \<or>
       (\<exists>tu. tab = [SuperRequest (table_put_args tu t)] \<or>
          (\<exists>bu bm bh. tab = [SuperRequest (table_put_args tu t),
                              SuperRequest (bucket_put_args bu bm bh buf t)])))
      \<and> (arr = [] \<or> (uz \<and> tab \<noteq> [] \<and> (\<exists>z. prefix arr (array_steps ow name p pol z))))
      \<and> (is_ok r \<longrightarrow>
           (\<exists>response tc tu.
              r = Inr response \<and> result_getitem response ''tableContent'' = Inr tc \<and>
              json_getitem tc ''url'' = Inr (JStr tu) \<and>
              tab \<noteq> [] \<and> hd tab = SuperRequest (table_put_args tu t))
           \<and> (if uz then \<exists>z. arr = array_steps ow name p pol z else arr = [])))"

text \<open>All requests after the first \<open>k\<close> satisfy \<open>Pr\<close>.\<close>

definition tail_reqs :: "(request_args \<Rightarrow> bool) \<Rightarrow> nat \<Rightarrow> (error + 'r) \<Rightarrow> event list \<Rightarrow> bool" where
  "tail_reqs Pr k r es = list_all Pr (drop k (requests_of es))"

section \<open>Concrete runs\<close>

text \<open>
  A session, a dataset and a hub to run the client on. The hub answers the dataset endpoint
  with the metadata, the table-content endpoint with a 307 naming a signed location, and
  anything else (the signed location) with the stored bytes.
\<close>

definition example_client :: client where
  "example_client = \<lparr>default_timeout = (10, 200), token = Some ''hub-token'', trace = []\<rparr>"

definition example_dumps :: "json \<Rightarrow> string" where
  "example_dumps j = (case j of JObj [] \<Rightarrow> ''{}'' | JStr s \<Rightarrow> s | _ \<Rightarrow> ''...'')"

definition example_env :: "(request_args \<Rightarrow> error + response) \<Rightarrow> bool \<Rightarrow> bool \<Rightarrow> env" where
  "example_env srv hub_active ext_active =
     \<lparr>super_request = (\<lambda>tr a. srv a),
      super_ensure_active_token = (\<lambda>tr tok. Inr hub_active),
      external_ensure_active_token = (\<lambda>tr. Inr ext_active),
      fetch_token = (\<lambda>tr. Inr ''fresh-token''),
      json_dumps = example_dumps,
      md5_hexdigest = (\<lambda>b. ''d41d8cd9''),
      new_filesystem = (\<lambda>tr ow n. Inr ()),
      zarr_open = (\<lambda>tr p m k. Inr ()),
      consolidate_metadata = (\<lambda>tr. Inr ()),
      read_source_key = (\<lambda>tr k. Inr ''zmeta''),
      write_dest_key = (\<lambda>tr k v. Inr ()),
      copy_store = (\<lambda>tr p. Inr ()),
      fs_protocol = ''polarisfs'',
      normalize_owner = (\<lambda>ow. case ow of None \<Rightarrow> Inl (ValueError ''owner'') | Some s \<Rightarrow> Inr s),
      model_dump = (\<lambda>d. [(''name'', JStr (fmt_opt (ds_name d)))]),
      sluggify = (\<lambda>s. s),
      to_parquet = (\<lambda>tbl. Inr tbl),
      read_parquet = (\<lambda>b. Inr b),
      make_dataset = (\<lambda>tr kvs tbl. Inl (OtherError ''validation'')),
      should_verify_checksum = (\<lambda>s d. False),
      verify_checksum = (\<lambda>tr d. Inr ())\<rparr>"

definition example_response :: "nat \<Rightarrow> json option \<Rightarrow> response" where
  "example_response st j = \<lparr>status_code = st, resp_content = [], resp_json = j\<rparr>"

text \<open>A hub that gives every request the same answer, and one that raises the same error.\<close>

definition answering :: "response \<Rightarrow> request_args \<Rightarrow> error + response" where
  "answering r a = Inr r"

definition raising :: "error \<Rightarrow> request_args \<Rightarrow> error + response" where
  "raising e a = Inl e"

definition meta_json :: json where
  "meta_json = JObj [(''tableContent'', JObj [(''url'', JStr ''/storage/table'')]),
                     (''md5Sum'', JStr ''d41d8cd9'')]"

definition redirect_json :: json where
  "redirect_json = JObj [(''url'', JStr ''https://bucket/signed''), (''method'', JStr ''PUT''),
                         (''headers'', JObj [])]"

definition example_hub :: "request_args \<Rightarrow> error + response" where
  "example_hub a =
     (if url a = ''/dataset/acme/ds'' then Inr (example_response 200 (Some meta_json))
      else if url a = ''/storage/table'' then Inr (example_response 307 (Some redirect_json))
      else Inr \<lparr>status_code = 200, resp_content = ''PAR1'', resp_json = None\<rparr>)"

text \<open>The same hub, with a storage endpoint that answers 404 and no JSON.\<close>

definition broken_storage_hub :: "request_args \<Rightarrow> error + response" where
  "broken_storage_hub a =
     (if url a = ''/dataset/acme/ds'' then Inr (example_response 200 (Some meta_json))
      else Inr (example_response 404 None))"

definition example_dataset :: dataset where
  "example_dataset =
     \<lparr>ds_license = Some ''CC-BY-4.0'', ds_owner = Some ''acme'', ds_name = Some ''ds'',
      ds_table = ''rows'', ds_uses_zarr = True,
      ds_zarr_md5sum_manifest = [JObj [(''path'', JStr ''A/0''), (''md5sum'', JStr ''0cc175b9'')]],
      ds_md5sum = None\<rparr>"

definition example_upload :: "(error + hub_result) \<times> client" where
  "example_upload =
     upload_dataset (example_env example_hub True True) example_dataset ''private''
       (Some (10, 2000)) None IfExistsReplace example_client"

definition example_upload_trace :: "event list" where
  "example_upload_trace =
     [TableToParquet, BufferSize 4, Md5Digest ''rows'',
      ZarrManifestDump [JObj [(''path'', JStr ''A/0''), (''md5sum'', JStr ''0cc175b9'')]],
      SuperRequest (hub_args ''/dataset/acme/ds'' ''PUT''
        (Some (JObj
          [(''tableContent'',
              JObj [(''size'', JInt 4), (''fileType'', JStr ''parquet''),
                    (''md5Sum'', JStr ''d41d8cd9'')]),
           (''zarrContent'', JArr [JObj [(''path'', JStr ''A/0''), (''md5sum'', JStr ''0cc175b9'')]]),
           (''access'', JStr ''private''),
           (''name'', JStr ''ds''),
           (''zarrRootPath'', JStr ''polarisfs://data.zarr'')]))
        (Some (10, 2000))),
      SuperRequest (table_put_args ''/storage/table'' (10, 2000)),
      SuperRequest (bucket_put_args ''https://bucket/signed'' ''PUT'' [] ''rows'' (10, 2000)),
      NewPolarisFileSystem ''acme'' (Some ''ds''),
      ZarrOpen ''polarisfs://data.zarr'' ModeW False,
      ConsolidateMetadata,
      ReadSourceKey ''.zmetadata'',
      WriteDestKey ''.zmetadata'' ''zmeta'',
      CopyStore IfExistsReplace]"

section \<open>How traces compose\<close>

lemma emitsD: "emits P m \<Longrightarrow> \<exists>es. trace (snd (m c)) = trace c @ es \<and> P (fst (m c)) es"
  by (simp add: emits_def)

lemma emits_new_events: "emits P m \<Longrightarrow> P (fst (m c)) (new_events c (snd (m c)))"
  using emitsD[of P m c] by (auto simp: new_events_def)

lemma emits_weaken: "emits P m \<Longrightarrow> (\<And>r es. P r es \<Longrightarrow> Q r es) \<Longrightarrow> emits Q m"
  by (fastforce simp: emits_def)

lemma emits_lift: "P r [] \<Longrightarrow> emits P (lift r)"
  by (simp add: emits_def lift_def)

lemma emits_call: "(\<And>tr. P (f tr) [e]) \<Longrightarrow> emits P (call e f)"
  by (simp add: emits_def call_def log_event_def)

lemma emits_request: "(\<And>r. P r [SuperRequest a]) \<Longrightarrow> emits P (request E a)"
  by (simp add: emits_def request_def log_event_def split: sum.splits)

lemma emits_base_request:
  "(\<And>r. P r [SuperRequest (hub_args u m j t)]) \<Longrightarrow> emits P (base_request_to_hub E u m j t)"
  by (simp add: emits_def base_request_to_hub_def request_def log_event_def
      split: sum.splits option.splits)

lemma emits_if: "emits P a \<Longrightarrow> emits P b \<Longrightarrow> emits P (if g then a else b)"
  by simp

lemma emits_bind:
  assumes m: "emits P m" and f: "\<And>x. emits (Q x) (f x)"
    and fail: "\<And>e es. P (Inl e) es \<Longrightarrow> R (Inl e) es"
    and ok: "\<And>x es r es'. P (Inr x) es \<Longrightarrow> Q x r es' \<Longrightarrow> R r (es @ es')"
  shows "emits R (bind m f)"
  unfolding emits_def
proof
  fix c
  obtain es where es: "trace (snd (m c)) = trace c @ es" "P (fst (m c)) es"
    using emitsD[OF m] by blast
  show "\<exists>es. trace (snd (bind m f c)) = trace c @ es \<and> R (fst (bind m f c)) es"
  proof (cases "fst (m c)")
    case (Inl e)
    then have "bind m f c = (Inl e, snd (m c))"
      by (cases "m c") (simp add: bind_def)
    with es Inl fail show ?thesis by auto
  next
    case (Inr x)
    then have b: "bind m f c = f x (snd (m c))"
      by (cases "m c") (simp add: bind_def)
    obtain es' where es': "trace (snd (f x (snd (m c)))) = trace (snd (m c)) @ es'"
        "Q x (fst (f x (snd (m c)))) es'"
      using emitsD[OF f] by blast
    from es es' Inr ok[of x es "fst (f x (snd (m c)))" es'] b show ?thesis by auto
  qed
qed

lemma emits_tmp: "emits P body \<Longrightarrow> emits P (tmp_attribute_change v body)"
  unfolding emits_def
proof
  fix c
  assume a: "\<forall>c. \<exists>es. trace (snd (body c)) = trace c @ es \<and> P (fst (body c)) es"
  from a[rule_format, of "c\<lparr>default_timeout := v\<rparr>"]
  show "\<exists>es. trace (snd (tmp_attribute_change v body c)) = trace c @ es \<and>
        P (fst (tmp_attribute_change v body c)) es"
    by (cases "body (c\<lparr>default_timeout := v\<rparr>)") (auto simp: tmp_attribute_change_def)
qed

lemma upload_zarr_events:
  "emits (\<lambda>r es. es \<noteq> [] \<and> (\<exists>z. prefix es (array_steps (fmt_opt (ds_owner d)) (ds_name d) p pol z))
        \<and> (is_ok r \<longrightarrow> (\<exists>z. es = array_steps (fmt_opt (ds_owner d)) (ds_name d) p pol z)))
     (upload_zarr E d p pol)"
  by (auto simp: emits_def upload_zarr_def open_zarr_file_def bind_def call_def log_event_def
      is_ok_def array_steps_def Let_def split: sum.splits)

lemma upload_parquet_events:
  "emits (\<lambda>r es. (es = [] \<and> \<not> is_ok r) \<or>
       (\<exists>tc tu. result_getitem response ''tableContent'' = Inr tc \<and>
          json_getitem tc ''url'' = Inr (JStr tu) \<and>
          (es = [SuperRequest (table_put_args tu t)] \<or>
           (\<exists>bu bm bh. es = [SuperRequest (table_put_args tu t),
                             SuperRequest (bucket_put_args bu bm bh buffer t)]))))
     (upload_parquet E response buffer t)"
  by (auto simp: emits_def upload_parquet_def bind_def lift_def request_def log_event_def
      is_ok_def json_str_def response_json_def split: sum.splits json.splits option.splits)


lemma emits_call_seq:
  assumes "\<And>x. emits (Q x) (f x)"
  shows "emits (\<lambda>r es. (\<exists>err. v = Inl err \<and> r = Inl err \<and> es = [e]) \<or>
                       (\<exists>x rest. v = Inr x \<and> es = e # rest \<and> Q x r rest))
           (bind (call e (\<lambda>_. v)) f)"
proof (rule emits_bind[where P="\<lambda>r es. es = [e] \<and> r = v" and Q=Q])
  show "emits (\<lambda>r es. es = [e] \<and> r = v) (call e (\<lambda>_. v))"
    by (rule emits_call) simp
  show "\<And>x. emits (Q x) (f x)"
    by (rule assms)
qed auto

lemma array_step_events:
  "emits (\<lambda>r es.
      (es = [] \<or> (uz \<and> (\<exists>z. prefix es (array_steps (fmt_opt (ds_owner d)) (ds_name d) p pol z))))
      \<and> (is_ok r \<longrightarrow> r = Inr response \<and>
           (if uz then \<exists>z. es = array_steps (fmt_opt (ds_owner d)) (ds_name d) p pol z else es = [])))
     (bind (if uz then tmp_attribute_change t (upload_zarr E d p pol) else lift (Inr ()))
        (\<lambda>_. lift (Inr response)))"
proof (cases uz)
  case True
  have "emits (\<lambda>r es.
      (\<exists>z. prefix es (array_steps (fmt_opt (ds_owner d)) (ds_name d) p pol z))
      \<and> (is_ok r \<longrightarrow> r = Inr response \<and>
           (\<exists>z. es = array_steps (fmt_opt (ds_owner d)) (ds_name d) p pol z)))
     (bind (tmp_attribute_change t (upload_zarr E d p pol)) (\<lambda>_. lift (Inr response)))"
  proof (rule emits_bind[OF emits_tmp[OF upload_zarr_events],
        where Q="\<lambda>x r es. es = [] \<and> r = Inr response"])
    show "\<And>x. emits (\<lambda>r es. es = [] \<and> r = Inr response) (lift (Inr response))"
      by (rule emits_lift) simp
  qed (auto simp: is_ok_def)
  then show ?thesis
    using True by (auto elim!: emits_weaken)
next
  case False
  have "emits (\<lambda>r es. es = [] \<and> r = Inr response)
     (bind (lift (Inr ())) (\<lambda>_. lift (Inr response)))"
  proof (rule emits_bind[where P="\<lambda>r es. es = [] \<and> is_ok r"
        and Q="\<lambda>x r es. es = [] \<and> r = Inr response"])
    show "emits (\<lambda>r es. es = [] \<and> is_ok r) (lift (Inr ()))"
      by (rule emits_lift) (simp add: is_ok_def)
    show "\<And>x. emits (\<lambda>r es. es = [] \<and> r = Inr response) (lift (Inr response))"
      by (rule emits_lift) simp
  qed (auto simp: is_ok_def)
  then show ?thesis
    using False by (auto elim!: emits_weaken)
qed

lemma transfer_steps_events:
  "emits (\<lambda>r es. \<exists>tab arr. es = tab @ arr \<and>
        transfer_shape uz (fmt_opt (ds_owner d)) (ds_name d) p pol buffer t r tab arr)
     (bind (upload_parquet E response buffer t) (\<lambda>_.
      bind (if uz then tmp_attribute_change t (upload_zarr E d p pol) else lift (Inr ()))
        (\<lambda>_. lift (Inr response))))"
proof (rule emits_bind[OF upload_parquet_events array_step_events])
  fix e :: error and es
  assume "(es = [] \<and> \<not> is_ok (Inl e :: error + unit)) \<or>
       (\<exists>tc tu. result_getitem response ''tableContent'' = Inr tc \<and>
          json_getitem tc ''url'' = Inr (JStr tu) \<and>
          (es = [SuperRequest (table_put_args tu t)] \<or>
           (\<exists>bu bm bh. es = [SuperRequest (table_put_args tu t),
                             SuperRequest (bucket_put_args bu bm bh buffer t)])))"
  then have "transfer_shape uz (fmt_opt (ds_owner d)) (ds_name d) p pol buffer t
      (Inl e :: error + hub_result) es []"
    by (auto simp: transfer_shape_def is_ok_def)
  then show "\<exists>tab arr. es = tab @ arr \<and>
        transfer_shape uz (fmt_opt (ds_owner d)) (ds_name d) p pol buffer t (Inl e) tab arr"
    by (intro exI[of _ es] exI[of _ "[]"]) simp
next
  fix x :: unit and es es' and r :: "error + hub_result"
  assume tab: "(es = [] \<and> \<not> is_ok (Inr x :: error + unit)) \<or>
       (\<exists>tc tu. result_getitem response ''tableContent'' = Inr tc \<and>
          json_getitem tc ''url'' = Inr (JStr tu) \<and>
          (es = [SuperRequest (table_put_args tu t)] \<or>
           (\<exists>bu bm bh. es = [SuperRequest (table_put_args tu t),
                             SuperRequest (bucket_put_args bu bm bh buffer t)])))"
    and arr: "(es' = [] \<or> (uz \<and> (\<exists>z. prefix es' (array_steps (fmt_opt (ds_owner d)) (ds_name d) p pol z))))
      \<and> (is_ok r \<longrightarrow> r = Inr response \<and>
           (if uz then \<exists>z. es' = array_steps (fmt_opt (ds_owner d)) (ds_name d) p pol z else es' = []))"
  from tab arr have "transfer_shape uz (fmt_opt (ds_owner d)) (ds_name d) p pol buffer t r es es'"
    unfolding transfer_shape_def by (auto simp: is_ok_def)
  then show "\<exists>tab arr. es @ es' = tab @ arr \<and>
        transfer_shape uz (fmt_opt (ds_owner d)) (ds_name d) p pol buffer t r tab arr"
    by blast
qed

lemma announce_events:
  "emits (\<lambda>r es. \<exists>tab arr. es = SuperRequest (hub_args u ''PUT'' j (Some t)) # tab @ arr \<and>
        transfer_shape uz (fmt_opt (ds_owner d)) (ds_name d) p pol buffer t r tab arr)
     (bind (base_request_to_hub E u ''PUT'' j (Some t)) (\<lambda>response.
      bind (upload_parquet E response buffer t) (\<lambda>_.
      bind (if uz then tmp_attribute_change t (upload_zarr E d p pol) else lift (Inr ()))
        (\<lambda>_. lift (Inr response)))))"
proof (rule emits_bind[where P="\<lambda>r es. es = [SuperRequest (hub_args u ''PUT'' j (Some t))]",
      OF _ transfer_steps_events])
  show "emits (\<lambda>r es. es = [SuperRequest (hub_args u ''PUT'' j (Some t))])
     (base_request_to_hub E u ''PUT'' j (Some t))"
    by (rule emits_base_request) simp
next
  fix e :: error and es
  assume "es = [SuperRequest (hub_args u ''PUT'' j (Some t))]"
  then show "\<exists>tab arr. es = SuperRequest (hub_args u ''PUT'' j (Some t)) # tab @ arr \<and>
        transfer_shape uz (fmt_opt (ds_owner d)) (ds_name d) p pol buffer t (Inl e) tab arr"
    by (intro exI[of _ "[]"]) (simp add: transfer_shape_def is_ok_def)
qed auto

lemma after_owner_events:
  "emits (\<lambda>r es. (es = [TableToParquet] \<and> \<not> is_ok r) \<or>
      (\<exists>buf tab arr.
         to_parquet E tbl = Inr buf \<and>
         es = [TableToParquet, BufferSize (length buf), Md5Digest buf, ZarrManifestDump man,
               SuperRequest (hub_args u ''PUT''
                 (Some (announce_json access (length buf) (md5_hexdigest E buf) man dj)) (Some t))]
              @ tab @ arr \<and>
         transfer_shape uz (fmt_opt (ds_owner d)) (ds_name d) p pol buf t r tab arr))
     (bind (call TableToParquet (\<lambda>_. to_parquet E tbl)) (\<lambda>buffer.
      bind (call (BufferSize (length buffer)) (\<lambda>_. Inr (length buffer))) (\<lambda>parquet_size.
      bind (call (Md5Digest buffer) (\<lambda>_. Inr (md5_hexdigest E buffer))) (\<lambda>parquet_md5.
      bind (call (ZarrManifestDump man) (\<lambda>_. Inr man)) (\<lambda>zarr_content.
      bind (base_request_to_hub E u ''PUT''
              (Some (announce_json access parquet_size parquet_md5 zarr_content dj)) (Some t))
        (\<lambda>response.
      bind (upload_parquet E response buffer t) (\<lambda>_.
      bind (if uz then tmp_attribute_change t (upload_zarr E d p pol) else lift (Inr ()))
        (\<lambda>_. lift (Inr response)))))))))"
  apply (rule emits_weaken)
   apply (rule emits_call_seq)
   apply (rule emits_call_seq)
   apply (rule emits_call_seq)
   apply (rule emits_call_seq)
   apply (rule announce_events)
  apply (auto simp: is_ok_def)
  done

lemma upload_dataset_steps_events:
  "emits (\<lambda>r es. (\<not> is_ok r \<and> (es = [] \<or> es = [TableToParquet])) \<or>
      (\<exists>ow buf tab arr.
         normalize_owner E (if truthy owner then owner else ds_owner d) = Inr ow \<and>
         to_parquet E (ds_table d) = Inr buf \<and>
         es = [TableToParquet, BufferSize (length buf), Md5Digest buf,
               ZarrManifestDump (ds_zarr_md5sum_manifest d),
               SuperRequest (hub_args (''/dataset/'' @ fmt_opt (artifact_id E (d\<lparr>ds_owner := Some ow\<rparr>)))
                 ''PUT''
                 (Some (announce_json access (length buf) (md5_hexdigest E buf)
                    (ds_zarr_md5sum_manifest d)
                    (AList.update ''zarrRootPath'' (JStr (zarr_root_path E))
                       (model_dump E (d\<lparr>ds_owner := Some ow\<rparr>)))))
                 (Some t))]
              @ tab @ arr \<and>
         transfer_shape (ds_uses_zarr d) ow (ds_name d) (zarr_root_path E) pol buf t r tab arr))
     (upload_dataset_steps E d access t owner pol)"
  unfolding upload_dataset_steps_def Let_def
proof (rule emits_bind[where
      P="\<lambda>r es. es = [] \<and> r = normalize_owner E (if truthy owner then owner else ds_owner d)",
      OF _ after_owner_events])
  show "emits (\<lambda>r es. es = [] \<and> r = normalize_owner E (if truthy owner then owner else ds_owner d))
     (lift (normalize_owner E (if truthy owner then owner else ds_owner d)))"
    by (rule emits_lift) simp
qed (auto simp: is_ok_def fmt_opt_def)

lemma requests_of_append: "requests_of (a @ b) = requests_of a @ requests_of b"
  by (induction a rule: requests_of.induct) simp_all

lemma tail_reqs_bind:
  assumes m: "emits (\<lambda>r es. length (requests_of es) = n \<and> list_all Pr (drop k (requests_of es))) m"
    and f: "\<And>x. emits (tail_reqs Pr (k - n)) (f x)"
  shows "emits (tail_reqs Pr k) (bind m f)"
  by (rule emits_bind[OF m f]) (simp_all add: tail_reqs_def requests_of_append)

lemma tail_reqs_lift: "emits (tail_reqs Pr k) (lift r)"
  by (rule emits_lift) (simp add: tail_reqs_def)

lemma tail_reqs_call: "requests_of [e] = [] \<Longrightarrow> emits (tail_reqs Pr k) (call e g)"
  by (rule emits_call) (simp add: tail_reqs_def)

lemma tail_reqs_bind_lift:
  "(\<And>x. emits (tail_reqs Pr k) (f x)) \<Longrightarrow> emits (tail_reqs Pr k) (bind (lift r) f)"
  by (rule tail_reqs_bind[where n=0]) (auto intro: emits_lift)

lemma tail_reqs_bind_call:
  "requests_of [e] = [] \<Longrightarrow> (\<And>x. emits (tail_reqs Pr k) (f x))
     \<Longrightarrow> emits (tail_reqs Pr k) (bind (call e g) f)"
  by (rule tail_reqs_bind[where n=0]) (auto intro: emits_call)

lemma tail_reqs_bind_request_Suc:
  "(\<And>x. emits (tail_reqs Pr k) (f x)) \<Longrightarrow> emits (tail_reqs Pr (Suc k)) (bind (request E a) f)"
  by (rule tail_reqs_bind[where n=1]) (auto intro: emits_request)

lemma tail_reqs_bind_base_Suc:
  "(\<And>x. emits (tail_reqs Pr k) (f x))
     \<Longrightarrow> emits (tail_reqs Pr (Suc k)) (bind (base_request_to_hub E u m j t) f)"
  by (rule tail_reqs_bind[where n=1]) (auto intro: emits_base_request)

lemma tail_reqs_bind_request_0:
  "Pr a \<Longrightarrow> (\<And>x. emits (tail_reqs Pr 0) (f x)) \<Longrightarrow> emits (tail_reqs Pr 0) (bind (request E a) f)"
  by (rule tail_reqs_bind[where n=1]) (auto intro: emits_request)

lemma tail_reqs_bind_any:
  assumes "emits (tail_reqs Pr k) m" and "\<And>x. emits (tail_reqs Pr 0) (f x)"
  shows "emits (tail_reqs Pr k) (bind m f)"
  by (rule emits_bind[OF assms])
     (auto simp: tail_reqs_def requests_of_append list_all_iff dest: in_set_dropD)

lemma load_from_signed_url_requests:
  "emits (\<lambda>r es. requests_of es = [get_args u AuthNone hs]) (load_from_signed_url E u hs)"
  unfolding load_from_signed_url_def
proof (rule emits_bind[where P="\<lambda>r es. es = [SuperRequest (get_args u AuthNone hs)]"
      and Q="\<lambda>x r es. requests_of es = []"])
  show "emits (\<lambda>r es. es = [SuperRequest (get_args u AuthNone hs)]) (request E (get_args u AuthNone hs))"
    by (rule emits_request) simp
  show "emits (\<lambda>r es. requests_of es = [])
      (bind (lift (raise_for_status x)) (\<lambda>_.
        call (ReadParquet (resp_content x)) (\<lambda>_. read_parquet E (resp_content x))))" for x
    by (rule emits_bind[where P="\<lambda>r es. es = []" and Q="\<lambda>x r es. requests_of es = []"])
       (auto intro: emits_lift emits_call)
qed (simp_all add: requests_of_append)

lemma tail_reqs_load:
  "Pr (get_args u AuthNone hs) \<Longrightarrow> emits (tail_reqs Pr 0) (load_from_signed_url E u hs)"
  by (rule emits_weaken[OF load_from_signed_url_requests]) (simp add: tail_reqs_def)

lemma get_dataset_requests:
  "emits (tail_reqs (\<lambda>a. auth a = AuthNone) (Suc (Suc 0))) (get_dataset E owner name verify)"
  unfolding get_dataset_def
  by (intro tail_reqs_bind_lift tail_reqs_bind_base_Suc tail_reqs_bind_request_Suc
      tail_reqs_bind_call tail_reqs_bind_any[OF tail_reqs_load] emits_if tail_reqs_lift)
     (simp_all add: get_args_def)

lemma upload_parquet_requests:
  "emits (tail_reqs (\<lambda>a. auth a = AuthNone \<and> content a = Some buffer) (Suc 0))
     (upload_parquet E response buffer t)"
  unfolding upload_parquet_def
  by (intro tail_reqs_bind_lift tail_reqs_bind_request_Suc tail_reqs_bind_request_0
      emits_if tail_reqs_lift)
     (simp_all add: bucket_put_args_def)

lemma open_zarr_requests: "emits (tail_reqs Pr 0) (open_zarr_file E ow n p m k)"
  by (simp add: emits_def open_zarr_file_def log_event_def tail_reqs_def Let_def
      split: sum.splits)

lemma upload_zarr_requests: "emits (tail_reqs Pr 0) (upload_zarr E d p pol)"
  unfolding upload_zarr_def
  by (intro tail_reqs_bind_any[OF open_zarr_requests] tail_reqs_bind_call tail_reqs_call) simp_all

lemma upload_dataset_steps_requests:
  "emits (tail_reqs (\<lambda>a. auth a = AuthNone \<and> content a \<noteq> None) (Suc (Suc 0)))
     (upload_dataset_steps E d access t owner pol)"
proof -
  let ?Pr = "\<lambda>a. auth a = AuthNone \<and> content a \<noteq> None"
  have parquet: "emits (tail_reqs ?Pr (Suc 0)) (upload_parquet E response buffer t)"
    for response buffer
    by (rule emits_weaken[OF upload_parquet_requests]) (auto simp: tail_reqs_def list_all_iff)
  have array: "emits (tail_reqs ?Pr 0)
      (bind (if uz then tmp_attribute_change t (upload_zarr E d' p pol) else lift (Inr ()))
         (\<lambda>_. lift (Inr response)))" for uz d' p and response :: hub_result
    by (rule tail_reqs_bind_any) (auto intro: emits_tmp upload_zarr_requests tail_reqs_lift)
  show ?thesis
    unfolding upload_dataset_steps_def Let_def
    by (intro tail_reqs_bind_lift tail_reqs_bind_call tail_reqs_bind_base_Suc
        tail_reqs_bind_any[OF parquet] array) simp_all
qed

lemma keeps_lift: "keeps_timeout (lift r)"
  by (simp add: keeps_timeout_def lift_def)

lemma keeps_call: "keeps_timeout (call e g)"
  by (simp add: keeps_timeout_def call_def log_event_def)

lemma keeps_request: "keeps_timeout (request E a)"
  by (simp add: keeps_timeout_def request_def log_event_def split: sum.splits)

lemma keeps_base_request: "keeps_timeout (base_request_to_hub E u m j t)"
  by (simp add: keeps_timeout_def base_request_to_hub_def request_def log_event_def
      split: sum.splits option.splits)

lemma keeps_bind: "keeps_timeout m \<Longrightarrow> (\<And>x. keeps_timeout (f x)) \<Longrightarrow> keeps_timeout (bind m f)"
  by (auto simp: keeps_timeout_def bind_def split: prod.splits sum.splits) (metis snd_conv)+

lemma keeps_if: "keeps_timeout a \<Longrightarrow> keeps_timeout b \<Longrightarrow> keeps_timeout (if g then a else b)"
  by simp

lemma keeps_tmp_attribute_change: "keeps_timeout (tmp_attribute_change v body)"
  by (simp add: keeps_timeout_def tmp_attribute_change_def split: prod.splits)

lemma keeps_upload_parquet: "keeps_timeout (upload_parquet E response buffer t)"
  unfolding upload_parquet_def
  by (intro keeps_bind keeps_lift keeps_request keeps_if)

lemma keeps_upload_dataset_steps: "keeps_timeout (upload_dataset_steps E d access t owner pol)"
  unfolding upload_dataset_steps_def Let_def
  by (intro keeps_bind keeps_lift keeps_call keeps_base_request keeps_upload_parquet keeps_if
      keeps_tmp_attribute_change)

section \<open>The example runs, evaluated\<close>

lemmas model_defs =
  bind_def lift_def call_def request_def base_request_to_hub_def log_event_def
  raise_for_status_def is_success_def hub_args_def get_args_def table_put_args_def
  bucket_put_args_def result_getitem_def json_getitem_def json_str_def json_headers_def
  response_json_def storage_check_def artifact_id_def fmt_opt_def truthy_def zarr_root_path_def
  announce_json_def dict_merge_def parquet_content_type_def

lemmas example_defs =
  example_env_def answering_def raising_def example_hub_def broken_storage_hub_def example_response_def
  example_dataset_def example_client_def example_dumps_def meta_json_def redirect_json_def

lemma example_upload_run:
  "example_upload = (Inr (Json meta_json), example_client\<lparr>trace := example_upload_trace\<rparr>)"
  unfolding example_upload_def example_upload_trace_def
  by (simp add: upload_dataset_def upload_dataset_steps_def upload_parquet_def upload_zarr_def
      open_zarr_file_def tmp_attribute_change_def model_defs example_defs Let_def)

lemma example_upload_new_events:
  "new_events example_client (snd example_upload) = example_upload_trace"
  by (simp add: example_upload_run new_events_def example_client_def)

section \<open>Claims about error translation\<close>

text \<open>
  Claim C1, as amended. A 401 that reaches \<^verbatim>\<open>request\<close> as a raised status error is re-raised as
  \<^verbatim>\<open>PolarisUnauthorizedError\<close>, and so leaves \<^verbatim>\<open>_base_request_to_hub\<close> as that error too.
  A 401 that \<^verbatim>\<open>request\<close> returns as a response is treated by \<^verbatim>\<open>_base_request_to_hub\<close> like any
  other failure that is not a 500: its body is parsed and wrapped in \<^verbatim>\<open>PolarisHubError\<close>, or
  the decode error propagates when the body is not JSON.
\<close>

theorem unauthorized_only_when_401_is_raised:
  assumes "status_code r = 401"
  shows "(super_request E (trace c) a = Inl (HTTPStatusError r) \<longrightarrow>
            fst (request E a c) = Inl PolarisUnauthorizedError)
       \<and> (super_request E (trace c) (hub_args u m j t) = Inl (HTTPStatusError r) \<longrightarrow>
            fst (base_request_to_hub E u m j t c) = Inl PolarisUnauthorizedError)
       \<and> (super_request E (trace c) (hub_args u m j t) = Inr r \<longrightarrow>
            fst (base_request_to_hub E u m j t c) =
              (case resp_json r of
                 None \<Rightarrow> Inl JSONDecodeError
               | Some body \<Rightarrow> Inl (PolarisHubError (hub_error_prefix @ json_dumps E body))))"
  using assms
  by (simp add: base_request_to_hub_def request_def raise_for_status_def is_success_def
      split: option.splits)

text \<open>The claim as written fails: the hub answers 401 with a JSON body, and the helper raises
  \<^verbatim>\<open>PolarisHubError\<close>.\<close>

theorem returned_401_becomes_hub_error:
  "status_code (example_response 401 (Some (JObj []))) = 401
   \<and> fst (base_request_to_hub
            (example_env (answering (example_response 401 (Some (JObj [])))) True True)
            ''/dataset'' ''GET'' None None example_client)
       = Inl (PolarisHubError (hub_error_prefix @ ''{}''))
   \<and> Inl (PolarisHubError (hub_error_prefix @ ''{}'')) \<noteq> (Inl PolarisUnauthorizedError :: error + hub_result)"
  by (simp add: model_defs example_defs)

theorem unauthorized_only_when_401_is_raised_witness:
  "fst (request
          (example_env (raising (HTTPStatusError (example_response 401 (Some (JObj []))))) True True)
          (hub_args ''/dataset'' ''GET'' None None) example_client)
     = Inl PolarisUnauthorizedError
   \<and> fst (base_request_to_hub
          (example_env (raising (HTTPStatusError (example_response 401 (Some (JObj []))))) True True)
          ''/dataset'' ''GET'' None None example_client)
     = Inl PolarisUnauthorizedError
   \<and> fst (base_request_to_hub
          (example_env (answering (example_response 401 (Some (JObj [])))) True True)
          ''/dataset'' ''GET'' None None example_client)
     = Inl (PolarisHubError (hub_error_prefix @ ''{}''))"
  using
    unauthorized_only_when_401_is_raised
      [of "example_response 401 (Some (JObj []))"
          "example_env (raising (HTTPStatusError (example_response 401 (Some (JObj []))))) True True"
          example_client "hub_args ''/dataset'' ''GET'' None None" "''/dataset''" "''GET''" None None]
    unauthorized_only_when_401_is_raised
      [of "example_response 401 (Some (JObj []))"
          "example_env (answering (example_response 401 (Some (JObj [])))) True True"
          example_client "hub_args ''/dataset'' ''GET'' None None" "''/dataset''" "''GET''" None None]
  by (simp add: example_env_def answering_def raising_def example_response_def example_dumps_def)

text \<open>
  Claim C2, as amended. When the response of a hub request is not a success: a 500 re-raises the
  status error as it is, whatever the body; any other status whose body parses as JSON raises
  \<^verbatim>\<open>PolarisHubError\<close> carrying the serialised body; and when the body does not parse, the
  decode error propagates.
\<close>

theorem hub_failure_translation:
  assumes "request E (hub_args u m j t) c = (Inr r, c')" and "\<not> is_success r"
  shows "(status_code r = 500 \<longrightarrow>
            base_request_to_hub E u m j t c = (Inl (HTTPStatusError r), c'))
       \<and> (status_code r \<noteq> 500 \<longrightarrow>
            (\<forall>body. resp_json r = Some body \<longrightarrow>
               base_request_to_hub E u m j t c =
                 (Inl (PolarisHubError (hub_error_prefix @ json_dumps E body)), c'))
          \<and> (resp_json r = None \<longrightarrow>
               base_request_to_hub E u m j t c = (Inl JSONDecodeError, c')))"
  using assms by (simp add: base_request_to_hub_def raise_for_status_def)

text \<open>The claim as written fails: the hub answers 404 with a body that is not JSON, and the
  helper raises the decode error, not \<^verbatim>\<open>PolarisHubError\<close>.\<close>

theorem failure_without_json_body_is_decode_error:
  "\<not> is_success (example_response 404 None)
   \<and> status_code (example_response 404 None) \<noteq> 500
   \<and> fst (base_request_to_hub (example_env (answering (example_response 404 None)) True True)
            ''/dataset'' ''GET'' None None example_client)
       = Inl JSONDecodeError"
  by (simp add: model_defs example_defs)

theorem hub_failure_translation_witness:
  "fst (base_request_to_hub
          (example_env (answering (example_response 500 (Some (JObj [])))) True True)
          ''/dataset'' ''GET'' None None example_client)
     = Inl (HTTPStatusError (example_response 500 (Some (JObj []))))
   \<and> fst (base_request_to_hub
          (example_env (answering (example_response 404 (Some (JObj [])))) True True)
          ''/dataset'' ''GET'' None None example_client)
     = Inl (PolarisHubError (hub_error_prefix @ ''{}''))
   \<and> fst (base_request_to_hub
          (example_env (answering (example_response 404 None)) True True)
          ''/dataset'' ''GET'' None None example_client)
     = Inl JSONDecodeError"
  using
    hub_failure_translation
      [of "example_env (answering (example_response 500 (Some (JObj [])))) True True"
          "''/dataset''" "''GET''" None None example_client "example_response 500 (Some (JObj []))"
          "log_event (SuperRequest (hub_args ''/dataset'' ''GET'' None None)) example_client"]
    hub_failure_translation
      [of "example_env (answering (example_response 404 (Some (JObj [])))) True True"
          "''/dataset''" "''GET''" None None example_client "example_response 404 (Some (JObj []))"
          "log_event (SuperRequest (hub_args ''/dataset'' ''GET'' None None)) example_client"]
    hub_failure_translation
      [of "example_env (answering (example_response 404 None)) True True"
          "''/dataset''" "''GET''" None None example_client "example_response 404 None"
          "log_event (SuperRequest (hub_args ''/dataset'' ''GET'' None None)) example_client"]
  by (simp add: request_def is_success_def example_env_def answering_def example_response_def example_dumps_def)

section \<open>Claims about the token and the array store\<close>

text \<open>
  Claim C3. \<^verbatim>\<open>ensure_active_token\<close>: when the hub token is active it returns \<open>True\<close> and does
  nothing more (only the check itself is in the trace, the session token is unchanged); when it
  is not and the external token is not active either, it returns \<open>False\<close>; when the external
  token is active, it fetches a hub token, installs it as the session token and returns \<open>True\<close>.
\<close>

theorem ensure_active_token_cases:
  "(super_ensure_active_token E (trace c) tok = Inr True \<longrightarrow>
      ensure_active_token E tok c = (Inr True, log_event (SuperEnsureActiveToken tok) c))
   \<and> (super_ensure_active_token E (trace c) tok = Inr False \<longrightarrow>
        external_ensure_active_token E (trace c @ [SuperEnsureActiveToken tok]) = Inr False \<longrightarrow>
      ensure_active_token E tok c =
        (Inr False, log_event ExternalEnsureActiveToken (log_event (SuperEnsureActiveToken tok) c)))
   \<and> (super_ensure_active_token E (trace c) tok = Inr False \<longrightarrow>
        external_ensure_active_token E (trace c @ [SuperEnsureActiveToken tok]) = Inr True \<longrightarrow>
        (\<forall>fresh.
           fetch_token E (trace c @ [SuperEnsureActiveToken tok, ExternalEnsureActiveToken]) = Inr fresh \<longrightarrow>
           ensure_active_token E tok c =
             (Inr True,
              (log_event FetchToken (log_event ExternalEnsureActiveToken
                 (log_event (SuperEnsureActiveToken tok) c)))\<lparr>token := Some fresh\<rparr>)))"
  by (simp add: ensure_active_token_def log_event_def Let_def)

theorem ensure_active_token_cases_witness:
  "ensure_active_token (example_env example_hub True True) ''hub-token'' example_client
     = (Inr True, example_client\<lparr>trace := [SuperEnsureActiveToken ''hub-token'']\<rparr>)
   \<and> ensure_active_token (example_env example_hub False False) ''hub-token'' example_client
     = (Inr False,
        example_client\<lparr>trace := [SuperEnsureActiveToken ''hub-token'', ExternalEnsureActiveToken]\<rparr>)
   \<and> ensure_active_token (example_env example_hub False True) ''hub-token'' example_client
     = (Inr True,
        example_client\<lparr>token := Some ''fresh-token'',
          trace := [SuperEnsureActiveToken ''hub-token'', ExternalEnsureActiveToken, FetchToken]\<rparr>)"
  using
    ensure_active_token_cases [of "example_env example_hub True True" example_client "''hub-token''"]
    ensure_active_token_cases [of "example_env example_hub False False" example_client "''hub-token''"]
    ensure_active_token_cases [of "example_env example_hub False True" example_client "''hub-token''"]
  by (simp add: example_env_def example_client_def log_event_def)

text \<open>
  Claim C8. \<^verbatim>\<open>open_zarr_file\<close> with \<^verbatim>\<open>as_consolidated\<close> set and a mode other than \<^verbatim>\<open>r\<close> or
  \<^verbatim>\<open>r+\<close> raises \<^verbatim>\<open>ValueError\<close> and leaves the client as it was: no file system is created and
  no store is opened.
\<close>

theorem consolidated_needs_read_mode:
  "as_consolidated \<Longrightarrow> mode \<notin> {ModeR, ModeRPlus} \<Longrightarrow>
     open_zarr_file E owner name path mode as_consolidated c
       = (Inl (ValueError consolidated_mode_error), c)"
  by (simp add: open_zarr_file_def)

theorem consolidated_needs_read_mode_witness:
  "ModeW \<notin> {ModeR, ModeRPlus}
   \<and> open_zarr_file (example_env example_hub True True) ''acme'' (Some ''ds'')
        ''polarisfs://data.zarr'' ModeW True example_client
      = (Inl (ValueError consolidated_mode_error), example_client)"
  using consolidated_needs_read_mode
    [of True ModeW "example_env example_hub True True" "''acme''" "Some ''ds''"
        "''polarisfs://data.zarr''" example_client]
  by simp

section \<open>Claims about download\<close>

text \<open>
  Claim C9. In \<^verbatim>\<open>get_dataset\<close>, when the response to the table-content request is not a 307 and
  is not a success, the download stops there with \<^verbatim>\<open>PolarisHubError\<close>.
\<close>

theorem download_fails_without_redirect:
  assumes "base_request_to_hub E (''/dataset/'' @ owner @ ''/'' @ name) ''GET'' None None c
             = (Inr response, c1)"
    and "result_getitem response ''tableContent'' = Inr table_content"
    and "json_getitem table_content ''url'' = Inr (JStr table_url)"
    and "request E (get_args table_url USE_CLIENT_DEFAULT []) c1 = (Inr storage_response, c2)"
    and "status_code storage_response \<noteq> 307"
    and "\<not> is_success storage_response"
  shows "get_dataset E owner name verify c = (Inl (PolarisHubError no_signed_url_error), c2)"
  using assms
  by (simp add: get_dataset_def bind_def lift_def json_str_def storage_check_def raise_for_status_def)

theorem download_fails_without_redirect_witness:
  "get_dataset (example_env broken_storage_hub True True) ''acme'' ''ds'' VerifyUnlessZarr example_client
     = (Inl (PolarisHubError no_signed_url_error),
        example_client\<lparr>trace :=
          [SuperRequest (hub_args ''/dataset/acme/ds'' ''GET'' None None),
           SuperRequest (get_args ''/storage/table'' USE_CLIENT_DEFAULT [])]\<rparr>)"
  using download_fails_without_redirect
    [of "example_env broken_storage_hub True True" "''acme''" "''ds''" example_client
        "Json meta_json"
        "example_client\<lparr>trace := [SuperRequest (hub_args ''/dataset/acme/ds'' ''GET'' None None)]\<rparr>"
        "JObj [(''url'', JStr ''/storage/table'')]" "''/storage/table''"
        "example_response 404 None"
        "example_client\<lparr>trace :=
          [SuperRequest (hub_args ''/dataset/acme/ds'' ''GET'' None None),
           SuperRequest (get_args ''/storage/table'' USE_CLIENT_DEFAULT [])]\<rparr>"
        VerifyUnlessZarr]
  by (simp add: model_defs example_defs)

section \<open>Claims about upload\<close>

text \<open>
  Claim C10. \<^verbatim>\<open>upload_dataset\<close> on a dataset without a license raises
  \<^verbatim>\<open>InvalidDatasetError\<close> and leaves the client as it was: nothing has been computed or
  requested.
\<close>

theorem unlicensed_upload_rejected:
  "ds_license d = None \<Longrightarrow>
     upload_dataset E d access timeout_arg owner if_exists c = (Inl InvalidDatasetError, c)"
  by (simp add: upload_dataset_def truthy_def)

theorem unlicensed_upload_rejected_witness:
  "ds_license (example_dataset\<lparr>ds_license := None\<rparr>) = None
   \<and> upload_dataset (example_env example_hub True True) (example_dataset\<lparr>ds_license := None\<rparr>)
        ''private'' (Some (10, 2000)) None IfExistsReplace example_client
      = (Inl InvalidDatasetError, example_client)"
  using unlicensed_upload_rejected
    [of "example_dataset\<lparr>ds_license := None\<rparr>" "example_env example_hub True True" "''private''"
        "Some (10, 2000)" None IfExistsReplace example_client]
  by simp

text \<open>
  Claim C4. Every run of \<^verbatim>\<open>upload_dataset\<close>, whatever its outcome, adds its events in this
  order. First the table is serialised, its size and its digest are computed and the checksum
  manifest is dumped; then comes the announce request, whose body carries that size, that
  digest and that manifest; then the tabular transfer (the empty \<^verbatim>\<open>PUT\<close>, and the \<^verbatim>\<open>PUT\<close> of the
  buffer after a 307); then the array transfer. A run that stops early leaves a prefix of this
  sequence. Array events occur only for a dataset that uses zarr and only after a tabular
  request. A run that returns has made the announce request and the tabular transfer, to the
  location the announce response names, and has made the whole array transfer if the dataset
  uses zarr and none of it otherwise.
\<close>

theorem upload_steps_in_order:
  "let res = upload_dataset E d access timeout_arg owner if_exists c;
       es = new_events c (snd res);
       t = (case timeout_arg of None \<Rightarrow> default_timeout c | Some v \<Rightarrow> v)
   in (\<not> is_ok (fst res) \<and> (es = [] \<or> es = [TableToParquet]))
    \<or> (\<exists>ow buf tab arr.
         normalize_owner E (if truthy owner then owner else ds_owner d) = Inr ow
       \<and> to_parquet E (ds_table d) = Inr buf
       \<and> es = [TableToParquet, BufferSize (length buf), Md5Digest buf,
               ZarrManifestDump (ds_zarr_md5sum_manifest d),
               SuperRequest
                 \<lparr>http_method = ''PUT'',
                  url = ''/dataset/'' @ fmt_opt (artifact_id E (d\<lparr>ds_owner := Some ow\<rparr>)),
                  withhold_token = False, auth = USE_CLIENT_DEFAULT, headers = [], content = None,
                  json_body = Some (JObj (dict_merge
                    [(''tableContent'',
                        JObj [(''size'', JInt (int (length buf))), (''fileType'', JStr ''parquet''),
                              (''md5Sum'', JStr (md5_hexdigest E buf))]),
                     (''zarrContent'', JArr (ds_zarr_md5sum_manifest d)),
                     (''access'', JStr access)]
                    (AList.update ''zarrRootPath'' (JStr (zarr_root_path E))
                       (model_dump E (d\<lparr>ds_owner := Some ow\<rparr>))))),
                  timeout = Some t\<rparr>]
              @ tab @ arr
       \<and> (tab = [] \<or>
            (\<exists>tu. tab = [SuperRequest (table_put_args tu t)] \<or>
               (\<exists>bu bm bh. tab = [SuperRequest (table_put_args tu t),
                                   SuperRequest (bucket_put_args bu bm bh buf t)])))
       \<and> (arr = [] \<or>
            (ds_uses_zarr d \<and> tab \<noteq> [] \<and>
             (\<exists>z. prefix arr
                [NewPolarisFileSystem ow (ds_name d), ZarrOpen (zarr_root_path E) ModeW False,
                 ConsolidateMetadata, ReadSourceKey ''.zmetadata'', WriteDestKey ''.zmetadata'' z,
                 CopyStore if_exists])))
       \<and> (is_ok (fst res) \<longrightarrow>
            (\<exists>response tc tu.
               fst res = Inr response \<and> result_getitem response ''tableContent'' = Inr tc \<and>
               json_getitem tc ''url'' = Inr (JStr tu) \<and>
               tab \<noteq> [] \<and> hd tab = SuperRequest (table_put_args tu t))
            \<and> (if ds_uses_zarr d
                then \<exists>z. arr =
                  [NewPolarisFileSystem ow (ds_name d), ZarrOpen (zarr_root_path E) ModeW False,
                   ConsolidateMetadata, ReadSourceKey ''.zmetadata'', WriteDestKey ''.zmetadata'' z,
                   CopyStore if_exists]
                else arr = [])))"
proof (cases "truthy (ds_license d)")
  case False
  then show ?thesis
    by (simp add: upload_dataset_def new_events_def is_ok_def)
next
  case True
  then have steps: "upload_dataset E d access timeout_arg owner if_exists c =
      upload_dataset_steps E d access
        (case timeout_arg of None \<Rightarrow> default_timeout c | Some v \<Rightarrow> v) owner if_exists c"
    by (simp add: upload_dataset_def)
  show ?thesis
    unfolding Let_def steps
    using emits_new_events[OF upload_dataset_steps_events
        [where E=E and d=d and access=access and owner=owner and pol=if_exists
           and t="case timeout_arg of None \<Rightarrow> default_timeout c | Some v \<Rightarrow> v"],
        where c=c]
    unfolding transfer_shape_def array_steps_def hub_args_def announce_json_def
    by blast
qed

theorem upload_steps_in_order_witness:
  "is_ok (fst example_upload) \<and> ds_uses_zarr example_dataset
   \<and> new_events example_client (snd example_upload) = example_upload_trace
   \<and> (\<exists>es tab arr ow z.
        new_events example_client (snd example_upload) = es @ tab @ arr
        \<and> tab \<noteq> []
        \<and> arr = [NewPolarisFileSystem ow (ds_name example_dataset),
                  ZarrOpen (zarr_root_path (example_env example_hub True True)) ModeW False,
                  ConsolidateMetadata, ReadSourceKey ''.zmetadata'', WriteDestKey ''.zmetadata'' z,
                  CopyStore IfExistsReplace])"
proof -
  have ok: "is_ok (fst example_upload)"
    by (simp add: example_upload_run is_ok_def)
  have uz: "ds_uses_zarr example_dataset"
    by (simp add: example_dataset_def)
  have "\<exists>es tab arr ow z.
        new_events example_client (snd example_upload) = es @ tab @ arr
        \<and> tab \<noteq> []
        \<and> arr = [NewPolarisFileSystem ow (ds_name example_dataset),
                  ZarrOpen (zarr_root_path (example_env example_hub True True)) ModeW False,
                  ConsolidateMetadata, ReadSourceKey ''.zmetadata'', WriteDestKey ''.zmetadata'' z,
                  CopyStore IfExistsReplace]"
    using upload_steps_in_order
         [of "example_env example_hub True True" example_dataset "''private''" "Some (10, 2000)"
             None IfExistsReplace example_client]
      ok uz
    unfolding Let_def example_upload_def[symmetric]
    by (simp only: if_True) blast
  with ok uz show ?thesis
    by (simp add: example_upload_new_events)
qed

text \<open>
  Claim C6. After \<^verbatim>\<open>upload_dataset\<close>, whether it returned or raised and wherever it raised, the
  session's \<^verbatim>\<open>default_timeout\<close> is what it was before the call.
\<close>

theorem upload_restores_default_timeout:
  "default_timeout (snd (upload_dataset E d access timeout_arg owner if_exists c)) = default_timeout c"
  using keeps_upload_dataset_steps
  by (simp add: upload_dataset_def keeps_timeout_def Let_def)

theorem upload_restores_default_timeout_witness:
  "default_timeout (snd example_upload) = (10, 200)"
  using upload_restores_default_timeout
    [of "example_env example_hub True True" example_dataset "''private''" "Some (10, 2000)"
        None IfExistsReplace example_client]
  by (simp add: example_upload_def example_client_def)

lemma upload_parquet_follows_redirect:
  assumes "result_getitem response ''tableContent'' = Inr table_content"
    and "json_getitem table_content ''url'' = Inr (JStr table_url)"
    and "super_request E (trace c) (table_put_args table_url t) = Inr hub_response"
    and "status_code hub_response = 307"
    and "resp_json hub_response = Some body"
    and "json_getitem body ''url'' = Inr (JStr bucket_url)"
    and "json_getitem body ''method'' = Inr (JStr bucket_method)"
    and "json_getitem body ''headers'' = Inr headers_json"
    and "json_headers headers_json = Inr bucket_headers"
  shows "requests_of (new_events c (snd (upload_parquet E response buffer t c)))
           = [table_put_args table_url t,
              bucket_put_args bucket_url bucket_method bucket_headers buffer t]"
  using assms
  by (simp add: upload_parquet_def bind_def lift_def request_def log_event_def response_json_def
      json_str_def new_events_def split: sum.splits)

text \<open>
  Claim C7. Following a signed URL is done without credentials. \<^verbatim>\<open>_load_from_signed_url\<close>
  issues exactly one request, with \<^verbatim>\<open>auth=None\<close>; in \<^verbatim>\<open>get_dataset\<close> every request after the two
  to the hub has \<^verbatim>\<open>auth=None\<close>. In the tabular step of \<^verbatim>\<open>upload_dataset\<close> every request after the
  first has \<^verbatim>\<open>auth=None\<close> and carries the buffered table, and when the hub answers the first
  with a 307 the second goes to the location that answer names; in the whole upload every
  request after the announce and the empty \<^verbatim>\<open>PUT\<close> has \<^verbatim>\<open>auth=None\<close>.
\<close>

theorem signed_requests_withhold_credentials:
  "requests_of (new_events c (snd (load_from_signed_url E u hs c))) = [get_args u AuthNone hs]
   \<and> list_all (\<lambda>a. auth a = AuthNone)
        (drop 2 (requests_of (new_events c (snd (get_dataset E owner name verify c)))))
   \<and> list_all (\<lambda>a. auth a = AuthNone \<and> content a = Some buffer)
        (drop 1 (requests_of (new_events c (snd (upload_parquet E response buffer t c)))))
   \<and> list_all (\<lambda>a. auth a = AuthNone \<and> content a \<noteq> None)
        (drop 2 (requests_of (new_events c
           (snd (upload_dataset E d access timeout_arg upload_owner if_exists c)))))
   \<and> (result_getitem response ''tableContent'' = Inr table_content
        \<and> json_getitem table_content ''url'' = Inr (JStr table_url)
        \<and> super_request E (trace c) (table_put_args table_url t) = Inr hub_response
        \<and> status_code hub_response = 307
        \<and> resp_json hub_response = Some body
        \<and> json_getitem body ''url'' = Inr (JStr bucket_url)
        \<and> json_getitem body ''method'' = Inr (JStr bucket_method)
        \<and> json_getitem body ''headers'' = Inr headers_json
        \<and> json_headers headers_json = Inr bucket_headers
      \<longrightarrow> requests_of (new_events c (snd (upload_parquet E response buffer t c)))
            = [table_put_args table_url t,
               bucket_put_args bucket_url bucket_method bucket_headers buffer t])"
proof (intro conjI impI)
  show "requests_of (new_events c (snd (load_from_signed_url E u hs c))) = [get_args u AuthNone hs]"
    using emits_new_events[OF load_from_signed_url_requests] .
  show "list_all (\<lambda>a. auth a = AuthNone)
        (drop 2 (requests_of (new_events c (snd (get_dataset E owner name verify c)))))"
    using emits_new_events[OF get_dataset_requests, of E owner name verify c]
    by (simp add: tail_reqs_def numeral_2_eq_2)
  show "list_all (\<lambda>a. auth a = AuthNone \<and> content a = Some buffer)
        (drop 1 (requests_of (new_events c (snd (upload_parquet E response buffer t c)))))"
    using emits_new_events[OF upload_parquet_requests, of buffer E response t c]
    by (simp add: tail_reqs_def)
  show "list_all (\<lambda>a. auth a = AuthNone \<and> content a \<noteq> None)
        (drop 2 (requests_of (new_events c
           (snd (upload_dataset E d access timeout_arg upload_owner if_exists c)))))"
  proof (cases "truthy (ds_license d)")
    case True
    then show ?thesis
      using emits_new_events[OF upload_dataset_steps_requests]
      by (simp add: upload_dataset_def tail_reqs_def numeral_2_eq_2 Let_def)
  next
    case False
    then show ?thesis
      by (simp add: upload_dataset_def new_events_def)
  qed
next
  assume "result_getitem response ''tableContent'' = Inr table_content
        \<and> json_getitem table_content ''url'' = Inr (JStr table_url)
        \<and> super_request E (trace c) (table_put_args table_url t) = Inr hub_response
        \<and> status_code hub_response = 307
        \<and> resp_json hub_response = Some body
        \<and> json_getitem body ''url'' = Inr (JStr bucket_url)
        \<and> json_getitem body ''method'' = Inr (JStr bucket_method)
        \<and> json_getitem body ''headers'' = Inr headers_json
        \<and> json_headers headers_json = Inr bucket_headers"
  then show "requests_of (new_events c (snd (upload_parquet E response buffer t c)))
            = [table_put_args table_url t,
               bucket_put_args bucket_url bucket_method bucket_headers buffer t]"
    by (elim conjE) (rule upload_parquet_follows_redirect, assumption+)
qed

theorem signed_requests_withhold_credentials_witness:
  "requests_of (new_events example_client
       (snd (upload_parquet (example_env example_hub True True) (Json meta_json) ''rows'' (10, 2000)
          example_client)))
     = [table_put_args ''/storage/table'' (10, 2000),
        bucket_put_args ''https://bucket/signed'' ''PUT'' [] ''rows'' (10, 2000)]
   \<and> list_all (\<lambda>a. auth a = AuthNone \<and> content a \<noteq> None)
        (drop 2 (requests_of (new_events example_client (snd example_upload))))
   \<and> drop 2 (requests_of (new_events example_client (snd example_upload)))
     = [bucket_put_args ''https://bucket/signed'' ''PUT'' [] ''rows'' (10, 2000)]"
proof -
  note all = signed_requests_withhold_credentials
    [of example_client "example_env example_hub True True" "''https://bucket/signed''" "[]"
        "''acme''" "''ds''" VerifyUnlessZarr "''rows''" "Json meta_json" "(10, 2000)"
        example_dataset "''private''" "Some (10, 2000)" None IfExistsReplace
        "JObj [(''url'', JStr ''/storage/table'')]" "''/storage/table''"
        "example_response 307 (Some redirect_json)" redirect_json
        "''https://bucket/signed''" "''PUT''" "JObj []" "[]"]
  have followed:
    "result_getitem (Json meta_json) ''tableContent'' = Inr (JObj [(''url'', JStr ''/storage/table'')])
     \<and> json_getitem (JObj [(''url'', JStr ''/storage/table'')]) ''url'' = Inr (JStr ''/storage/table'')
     \<and> super_request (example_env example_hub True True) (trace example_client)
          (table_put_args ''/storage/table'' (10, 2000))
        = Inr (example_response 307 (Some redirect_json))
     \<and> status_code (example_response 307 (Some redirect_json)) = 307
     \<and> resp_json (example_response 307 (Some redirect_json)) = Some redirect_json
     \<and> json_getitem redirect_json ''url'' = Inr (JStr ''https://bucket/signed'')
     \<and> json_getitem redirect_json ''method'' = Inr (JStr ''PUT'')
     \<and> json_getitem redirect_json ''headers'' = Inr (JObj [])
     \<and> json_headers (JObj []) = Inr []"
    by (simp add: model_defs example_defs)
  have "requests_of (new_events example_client
       (snd (upload_parquet (example_env example_hub True True) (Json meta_json) ''rows'' (10, 2000)
          example_client)))
     = [table_put_args ''/storage/table'' (10, 2000),
        bucket_put_args ''https://bucket/signed'' ''PUT'' [] ''rows'' (10, 2000)]"
    using all followed by blast
  moreover have "list_all (\<lambda>a. auth a = AuthNone \<and> content a \<noteq> None)
        (drop 2 (requests_of (new_events example_client (snd example_upload))))"
    using all unfolding example_upload_def by blast
  moreover have "drop 2 (requests_of (new_events example_client (snd example_upload)))
     = [bucket_put_args ''https://bucket/signed'' ''PUT'' [] ''rows'' (10, 2000)]"
    by (simp add: example_upload_new_events example_upload_trace_def)
  ultimately show ?thesis by blast
qed

end
